theory Spec2Isabelle
  imports Main "HOL-Library.AList"
begin

section \<open>ECMAScript string operations used by the snippet parser\<close>

text \<open>
  A string is the list of its code units. The development covers code units below 256;
  in that range the white space and line terminators that \<^verbatim>\<open>trim\<close> and
  \<^verbatim>\<open>trimEnd\<close> strip are TAB, LF, VT, FF, CR, SPACE and NBSP.
\<close>

definition isWhiteSpace :: "char \<Rightarrow> bool" where
  "isWhiteSpace c =
     (c \<in> set [CHR 0x09, CHR 0x0A, CHR 0x0B, CHR 0x0C, CHR 0x0D, CHR 0x20, CHR 0xA0])"

definition trimStart :: "string \<Rightarrow> string" where
  "trimStart s = dropWhile isWhiteSpace s"

definition trimEnd :: "string \<Rightarrow> string" where
  "trimEnd s = rev (dropWhile isWhiteSpace (rev s))"

definition trim :: "string \<Rightarrow> string" where
  "trim s = trimEnd (trimStart s)"

text \<open>
  \<^verbatim>\<open>s.split(sep)\<close> for a one-character separator. The result is never the empty
  array (\<open>split_js_nonempty\<close> below), so the last case of the second equation is never
  taken.
\<close>

fun split_js :: "char \<Rightarrow> string \<Rightarrow> string list" where
  "split_js sep [] = [[]]"
| "split_js sep (c # cs) =
     (if c = sep then [] # split_js sep cs
      else (case split_js sep cs of
              piece # pieces \<Rightarrow> (c # piece) # pieces
            | [] \<Rightarrow> [[c]]))"

text \<open>
  \<^verbatim>\<open>s.substring(a, b)\<close>: both indices are clamped to \<open>[0, length]\<close> and swapped when
  the first exceeds the second. \<^verbatim>\<open>s.substring(a)\<close> runs to the end of the string.
\<close>

definition substring :: "string \<Rightarrow> int \<Rightarrow> int \<Rightarrow> string" where
  "substring s a b =
     (let n = int (length s);
          a' = max 0 (min a n);
          b' = max 0 (min b n);
          lo = min a' b';
          hi = max a' b'
      in take (nat (hi - lo)) (drop (nat lo) s))"

definition substringFrom :: "string \<Rightarrow> int \<Rightarrow> string" where
  "substringFrom s a = substring s a (int (length s))"

text \<open>\<^verbatim>\<open>s.lastIndexOf(c)\<close>: the index of the last occurrence, or -1.\<close>

definition lastIndexOf :: "string \<Rightarrow> char \<Rightarrow> int" where
  "lastIndexOf s c =
     (if c \<in> set s
      then int (length s) - 1 - int (length (takeWhile (\<lambda>x. x \<noteq> c) (rev s)))
      else - 1)"

definition endsWith :: "string \<Rightarrow> char \<Rightarrow> bool" where
  "endsWith s c = (case rev s of [] \<Rightarrow> False | x # _ \<Rightarrow> x = c)"

text \<open>\<^verbatim>\<open>s.at(0)\<close> and \<^verbatim>\<open>s.at(-1)\<close>; \<open>None\<close> is \<^verbatim>\<open>undefined\<close>.\<close>

definition atFirst :: "string \<Rightarrow> char option" where
  "atFirst s = (case s of [] \<Rightarrow> None | x # _ \<Rightarrow> Some x)"

definition atLast :: "string \<Rightarrow> char option" where
  "atLast s = (case rev s of [] \<Rightarrow> None | x # _ \<Rightarrow> Some x)"

text \<open>Conversion of a line number to text, as a template literal does.\<close>

fun showNat :: "nat \<Rightarrow> string" where
  "showNat n =
     (if n < 10 then [''0123456789'' ! n]
      else showNat (n div 10) @ [''0123456789'' ! (n mod 10)])"

declare showNat.simps [simp del]

definition dquote :: char where
  "dquote = CHR 0x22"

definition newline :: char where
  "newline = CHR 0x0A"

definition quoted :: "string \<Rightarrow> string" where
  "quoted s = [CHR 0x27] @ s @ [CHR 0x27]"

section \<open>Data model\<close>

type_synonym globals = "(string \<times> string list) list"
type_synonym actions = "(string \<times> string) list"

text \<open>
  Class \<^verbatim>\<open>SnippetDefinition\<close>, with the fields its constructor assigns
  (\<^verbatim>\<open>matched\<close> and \<^verbatim>\<open>lastRegex\<close> are declared and never assigned).
  \<open>None\<close> in \<open>globals\<close> and \<open>context\<close> is \<^verbatim>\<open>null\<close>. The field
  \<^verbatim>\<open>value\<close> is \<open>value'\<close> and \<^verbatim>\<open>context\<close> is \<open>context'\<close> here.
\<close>

record SnippetDefinition =
  priority :: nat
  trigger :: string
  value' :: string
  description :: string
  options :: string
  globals :: "globals option"
  location :: string
  context' :: "string option"
  actions :: actions

text \<open>
  The two shapes the handler returns: \<^verbatim>\<open>["error", [message, line]]\<close> and
  \<^verbatim>\<open>["snippet", [definition]]\<close>.
\<close>

datatype handler_result = Error string nat | Snippet SnippetDefinition

text \<open>
  The exceptions the parser can raise, both of class TypeError: reading a property of
  \<^verbatim>\<open>undefined\<close> and reading a property of \<^verbatim>\<open>null\<close>; the argument is the
  property read.
\<close>

datatype type_error = ReadOfUndefined string | ReadOfNull string

section \<open>The header splitter\<close>

text \<open>\<^verbatim>\<open>line.split(" ", 2)\<close>: the first two pieces of the split on spaces.\<close>

definition headTail :: "string \<Rightarrow> string list" where
  "headTail line = take 2 (split_js CHR '' '' line)"

section \<open>The directive handler\<close>

text \<open>Lines 163 to 176: the options word.\<close>

definition parseOptions :: "string \<Rightarrow> string \<times> string" where
  "parseOptions tail =
     (let words = split_js CHR '' '' tail
      in if length words > 2 \<and> dquote \<notin> set (last words)
            \<and> endsWith (words ! (length words - 2)) dquote
         then (last words,
               trimEnd (substring tail 0
                 (int (length tail) - int (length (last words)) - 1)))
         else ('''', tail))"

text \<open>Lines 178 to 186: the context expression. \<^verbatim>\<open>!context\<close> holds of null and of the empty string.\<close>

definition parseContext :: "string \<Rightarrow> string option \<Rightarrow> string \<Rightarrow> string option \<times> string" where
  "parseContext opts ctx tail =
     (if CHR ''e'' \<in> set opts \<and> (case ctx of None \<Rightarrow> True | Some c \<Rightarrow> c = [])
      then (let left = lastIndexOf (substring tail 0 (int (length tail) - 1)) dquote
            in if left \<noteq> - 1 \<and> left \<noteq> 0
               then (Some (remove1 dquote (substringFrom tail left)), substring tail 0 left)
               else (ctx, tail))
      else (ctx, tail))"

text \<open>Lines 189 to 197: the description, on the trimmed tail.\<close>

definition parseDescription :: "string \<Rightarrow> string \<times> string" where
  "parseDescription tail =
     (if length tail > 1 \<and> endsWith tail dquote
      then (let left = lastIndexOf (substring tail 0 (int (length tail) - 1)) dquote
            in if left \<noteq> - 1 \<and> left \<noteq> 0
               then (substringFrom tail left, substring tail 0 left)
               else ('''', tail))
      else ('''', tail))"

text \<open>
  Lines 162 to 199: the header fields, from the tail of the header line:
  options, context, description and the trigger candidate.
\<close>

definition parseHeader :: "string \<Rightarrow> string option \<Rightarrow> string \<times> string option \<times> string \<times> string" where
  "parseHeader tail ctx =
     (let (opts, tail1) = parseOptions tail;
          (ctx1, tail2) = parseContext opts ctx tail1;
          (desc, tail3) = parseDescription (trim tail2)
      in (opts, ctx1, desc, trim tail3))"

text \<open>
  Lines 216 to 225: the scan for the end marker. It runs over the lines it is given from
  their first one; a line that is not the marker is appended as it is and counted.
  The result is the content, the line counter and \<^verbatim>\<open>foundEnd\<close>.
\<close>

fun collectBody :: "string \<Rightarrow> string list \<Rightarrow> string \<Rightarrow> nat \<Rightarrow> string \<times> nat \<times> bool" where
  "collectBody end [] content n = (content, n, False)"
| "collectBody end (line # lines) content n =
     (if trimEnd line = end
      then (substring content 0 (int (length content) - 1), n, True)
      else collectBody end lines (content @ line) (n + 1))"

text \<open>
  Lines 148 to 262. A header line without a space has no tail, and splitting the tail
  raises. The globals object is returned with the result, updated by the push of the
  global branch. On an object that has the key the push succeeds and control leaves the
  switch for the final return; a key the object lacks reads as \<^verbatim>\<open>undefined\<close>.
\<close>

definition handleSnippetOrGlobal ::
  "string \<Rightarrow> string \<Rightarrow> nat \<Rightarrow> string list \<Rightarrow> globals option \<Rightarrow> nat \<Rightarrow> actions \<Rightarrow> string option
    \<Rightarrow> type_error + (handler_result \<times> globals option)" where
  "handleSnippetOrGlobal filename line currentLineNumber lines pythonGlobals currentPriority
      preExpand ctx =
     (case headTail line of
        head # tail # _ \<Rightarrow>
          (let (opts, ctx1, desc, trigger0) = parseHeader tail ctx
           in if (length trigger0 > 1 \<or> CHR ''r'' \<in> set opts)
                 \<and> atFirst trigger0 \<noteq> atLast trigger0
              then Inr (Error (''Invalid multiword trigger: '' @ quoted trigger0)
                          currentLineNumber, pythonGlobals)
              else
                (let trig = (if length trigger0 > 1 \<or> CHR ''r'' \<in> set opts
                             then substring trigger0 1 (int (length trigger0) - 1)
                             else trigger0);
                     end = ''end'' @ head;
                     (content, n, foundEnd) = collectBody end lines '''' currentLineNumber
                 in if \<not> foundEnd
                    then Inr (Error (''Missing '' @ quoted end @ '' for '' @ quoted trig) n,
                              pythonGlobals)
                    else if head = ''global''
                    then (case pythonGlobals of
                            None \<Rightarrow> Inl (ReadOfNull trig)
                          | Some g \<Rightarrow>
                              (case map_of g trig of
                                 None \<Rightarrow> Inl (ReadOfUndefined ''push'')
                               | Some frags \<Rightarrow>
                                   Inr (Error (''Invalid snippet type: '' @ quoted head) n,
                                        Some (AList.update trig (frags @ [content]) g))))
                    else if head = ''snippet''
                    then Inr (Snippet \<lparr>priority = currentPriority, trigger = trig,
                                value' = content, description = desc, options = opts,
                                globals = pythonGlobals,
                                location = filename @ '':'' @ showNat currentLineNumber,
                                context' = ctx1, actions = preExpand\<rparr>,
                              pythonGlobals)
                    else Inr (Error (''Invalid snippet type: '' @ quoted head) n,
                              pythonGlobals)))
      | _ \<Rightarrow> Inl (ReadOfUndefined ''split''))"

section \<open>The file scan\<close>

text \<open>
  How a run of the generator ends: the loop is exhausted, a \<^verbatim>\<open>return\<close> statement hands
  back \<^verbatim>\<open>["snippet", [result]]\<close>, or an exception leaves it.
\<close>

datatype completion = Done | Returned handler_result | Threw type_error

record generator_run =
  yielded :: "SnippetDefinition list"
  completion :: completion

text \<open>
  Lines 264 to 288, with the variables of lines 138 to 142 as parameters and the values
  yielded so far as the last one. What the handler returns is never \<^verbatim>\<open>null\<close>, so
  the test of line 282 holds whenever it is reached and the run returns there.
\<close>

fun scanLines ::
  "string \<Rightarrow> string list \<Rightarrow> string list \<Rightarrow> globals option \<Rightarrow> nat \<Rightarrow> nat \<Rightarrow> actions
    \<Rightarrow> string option \<Rightarrow> SnippetDefinition list \<Rightarrow> generator_run" where
  "scanLines filename allLines [] pythonGlobals currentLineNumber currentPriority acts ctx ys =
     \<lparr>yielded = ys, completion = Done\<rparr>"
| "scanLines filename allLines (line # rest) pythonGlobals currentLineNumber currentPriority
      acts ctx ys =
     (if trim line = [] then
        scanLines filename allLines rest pythonGlobals currentLineNumber currentPriority
          acts ctx ys
      else if hd (headTail line) \<in> set [''snippet'', ''global''] then
        (case handleSnippetOrGlobal filename line currentLineNumber allLines pythonGlobals
                currentPriority acts ctx of
           Inl e \<Rightarrow> \<lparr>yielded = ys, completion = Threw e\<rparr>
         | Inr (snippet, _) \<Rightarrow> \<lparr>yielded = ys, completion = Returned snippet\<rparr>)
      else
        scanLines filename allLines rest pythonGlobals (currentLineNumber + 1)
          currentPriority acts ctx ys)"

definition parseSnippets :: "string \<Rightarrow> string \<Rightarrow> generator_run" where
  "parseSnippets filename raw =
     scanLines filename (split_js newline raw) (split_js newline raw) None 0 0 [] None []"

text \<open>
  Lines 112 to 119 of \<^verbatim>\<open>loadSnippets\<close>: the array spread over the generator. It collects
  the yielded values, drops the value of a \<^verbatim>\<open>return\<close>, and lets an exception through.
\<close>

definition spread :: "generator_run \<Rightarrow> type_error + SnippetDefinition list" where
  "spread run = (case completion run of Threw e \<Rightarrow> Inl e | _ \<Rightarrow> Inr (yielded run))"

definition loadedRecords :: "string \<Rightarrow> string \<Rightarrow> type_error + SnippetDefinition list" where
  "loadedRecords filename raw = spread (parseSnippets filename raw)"

section \<open>Properties of the scan loop\<close>

text \<open>The loop never extends the sequence of yielded values.\<close>

lemma scanLines_yielded:
  "yielded (scanLines filename allLines ls g n p acts ctx ys) = ys"
  by (induction ls arbitrary: n) (auto split: sum.splits prod.splits)

text \<open>
  Blank lines and lines whose first word is no block keyword are passed over; only the
  second kind is counted.
\<close>

lemma scanLines_skip:
  assumes "\<forall>line \<in> set pre.
             trim line = [] \<or> hd (headTail line) \<notin> set [''snippet'', ''global'']"
  shows "scanLines filename allLines (pre @ rest) g n p acts ctx ys =
         scanLines filename allLines rest g
           (n + length (filter (\<lambda>line. trim line \<noteq> []) pre)) p acts ctx ys"
  using assms by (induction pre arbitrary: n) auto

text \<open>The record of a snippet block carries the priority the handler was called with.\<close>

lemma handler_priority:
  assumes "handleSnippetOrGlobal filename line n lines g p pre ctx = Inr (Snippet r, g')"
  shows "priority r = p"
  using assms unfolding handleSnippetOrGlobal_def
  by (auto simp: Let_def split: list.splits prod.splits if_splits option.splits)

lemma scanLines_priority:
  assumes "completion (scanLines filename allLines ls g n p acts ctx ys) = Returned (Snippet r)"
  shows "priority r = p"
  using assms
  by (induction ls arbitrary: n)
     (auto split: sum.splits prod.splits if_splits dest: handler_priority)

section \<open>Properties of the string operations\<close>

text \<open>Splitting: a string without the separator is one piece, and the first separator ends the first piece.\<close>

lemma split_js_nonempty: "split_js sep s \<noteq> []"
  by (induction s) (auto split: list.splits)

lemma split_js_no_sep: "sep \<notin> set a \<Longrightarrow> split_js sep a = [a]"
  by (induction a) auto

lemma split_js_append:
  "sep \<notin> set a \<Longrightarrow> split_js sep (a @ sep # b) = a # split_js sep b"
  by (induction a) (auto split: list.splits)

text \<open>A line of two words, split into its head and its tail.\<close>

lemma headTail_two_words:
  assumes "CHR '' '' \<notin> set h" and "CHR '' '' \<notin> set t"
  shows "headTail (h @ CHR '' '' # t) = [h, t]"
  using assms by (simp add: headTail_def split_js_append split_js_no_sep)

text \<open>Trimming leaves a string alone whose ends are no white space.\<close>

lemma trimEnd_id:
  assumes "s \<noteq> []" and "\<not> isWhiteSpace (last s)"
  shows "trimEnd s = s"
proof -
  from assms obtain x xs where "rev s = x # xs" and "\<not> isWhiteSpace x"
    by (cases "rev s") (auto simp: last_rev[symmetric] simp del: last_rev)
  then show ?thesis by (simp add: trimEnd_def)
qed

lemma trim_id:
  assumes "s \<noteq> []" and "\<not> isWhiteSpace (hd s)" and "\<not> isWhiteSpace (last s)"
  shows "trim s = s"
proof -
  from assms have "trimStart s = s" by (cases s) (auto simp: trimStart_def)
  with assms show ?thesis by (simp add: trim_def trimEnd_id)
qed

section \<open>Properties of the handler\<close>

text \<open>A tail of one word has no options word, and without options no context is read.\<close>

lemma parseOptions_one_word:
  "CHR '' '' \<notin> set tail \<Longrightarrow> parseOptions tail = ('''', tail)"
  by (simp add: parseOptions_def split_js_no_sep)

lemma parseContext_no_options: "parseContext '''' ctx tail = (ctx, tail)"
  by (simp add: parseContext_def)

text \<open>The scan for the end marker finds it exactly when some line, trimmed at its end, equals it; when none does, every line is appended and counted.\<close>

lemma collectBody_flag:
  "snd (snd (collectBody e lines c n)) = (\<exists>line \<in> set lines. trimEnd line = e)"
  by (induction lines arbitrary: c n) auto

lemma collectBody_found:
  assumes "\<exists>line \<in> set lines. trimEnd line = e"
  shows "\<exists>content m. collectBody e lines c n = (content, m, True)"
proof (cases "collectBody e lines c n")
  case (fields content m found)
  with collectBody_flag[of e lines c n] assms show ?thesis by simp
qed

lemma collectBody_not_found:
  assumes "\<forall>line \<in> set lines. trimEnd line \<noteq> e"
  shows "collectBody e lines c n = (c @ concat lines, n + length lines, False)"
  using assms by (induction lines arbitrary: c n) auto

text \<open>The header fields of a one-character tail, and the global branch on a null globals object.\<close>

lemma parseHeader_single_char:
  assumes "\<not> isWhiteSpace key"
  shows "parseHeader [key] ctx = ('''', ctx, '''', [key])"
proof -
  from assms have sp: "CHR '' '' \<notin> set [key]" by (auto simp: isWhiteSpace_def)
  have tr: "trim [key] = [key]" using assms by (simp add: trim_id)
  show ?thesis
    by (simp add: parseHeader_def parseOptions_one_word[OF sp] parseContext_no_options tr
        parseDescription_def)
qed

lemma handler_global_null:
  assumes "\<not> isWhiteSpace key" and "\<exists>line \<in> set lines. trimEnd line = ''endglobal''"
  shows "handleSnippetOrGlobal filename (''global '' @ [key]) n lines None p pre ctx
         = Inl (ReadOfNull [key])"
proof -
  from assms(1) have "key \<noteq> CHR '' ''" by (auto simp: isWhiteSpace_def)
  then have ht: "headTail (''global'' @ CHR '' '' # [key]) = [''global'', [key]]"
    by (intro headTail_two_words) auto
  from collectBody_found[OF assms(2)] obtain content m
    where cb: "collectBody ''endglobal'' lines [] n = (content, m, True)" by blast
  show ?thesis
    using ht cb by (simp add: handleSnippetOrGlobal_def parseHeader_single_char[OF assms(1)])
qed

text \<open>The header fields of a tail that is one quoted word.\<close>

lemma dquote_not_space: "\<not> isWhiteSpace dquote"
  by (simp add: isWhiteSpace_def dquote_def)

lemma lastIndexOf_first_only:
  assumes "c \<notin> set t"
  shows "lastIndexOf (c # t) c = 0"
proof -
  have "takeWhile (\<lambda>x. x \<noteq> c) (rev t @ [c]) = rev t"
    using assms by (subst takeWhile_append2) auto
  then show ?thesis by (simp add: lastIndexOf_def)
qed

lemma substring_drop_last: "substring (s @ [x]) 0 (int (length (s @ [x])) - 1) = s"
  by (simp add: substring_def Let_def)

lemma substring_strip_ends:
  "substring (a # m @ [b]) 1 (int (length (a # m @ [b])) - 1) = m"
  by (simp add: substring_def Let_def)

lemma parseDescription_quoted:
  assumes "dquote \<notin> set t"
  shows "parseDescription (dquote # t @ [dquote]) = ('''', dquote # t @ [dquote])"
proof -
  have "substring (dquote # t @ [dquote]) 0 (int (length (dquote # t @ [dquote])) - 1)
        = dquote # t"
    using substring_drop_last[of "dquote # t" dquote] by simp
  then show ?thesis
    using assms by (simp add: parseDescription_def lastIndexOf_first_only Let_def)
qed

lemma parseHeader_quoted:
  assumes "CHR '' '' \<notin> set t" and "dquote \<notin> set t"
  shows "parseHeader (dquote # t @ [dquote]) ctx = ('''', ctx, '''', dquote # t @ [dquote])"
proof -
  have sp: "CHR '' '' \<notin> set (dquote # t @ [dquote])"
    using assms(1) by (simp add: dquote_def)
  have tr: "trim (dquote # t @ [dquote]) = dquote # t @ [dquote]"
    by (rule trim_id) (simp_all add: dquote_not_space)
  show ?thesis
    by (simp add: parseHeader_def parseOptions_one_word[OF sp] parseContext_no_options tr
        parseDescription_quoted[OF assms(2)])
qed

text \<open>A quoted trigger and no end marker among the lines scanned.\<close>

lemma handler_missing_end:
  assumes "CHR '' '' \<notin> set t" and "dquote \<notin> set t"
    and "\<forall>line \<in> set lines. trimEnd line \<noteq> ''endsnippet''"
  shows "handleSnippetOrGlobal filename (''snippet '' @ dquote # t @ [dquote]) n lines g p pre ctx
         = Inr (Error (''Missing '' @ quoted ''endsnippet'' @ '' for '' @ quoted t)
                  (n + length lines), g)"
proof -
  have ht: "headTail (''snippet'' @ CHR '' '' # (dquote # t @ [dquote]))
            = [''snippet'', dquote # t @ [dquote]]"
    using assms(1) by (intro headTail_two_words) (auto simp: dquote_def)
  have cand: "atFirst (dquote # t @ [dquote]) = atLast (dquote # t @ [dquote])"
    by (simp add: atFirst_def atLast_def)
  have strip: "substring (dquote # t @ [dquote]) 1 (int (length (dquote # t @ [dquote])) - 1) = t"
    by (rule substring_strip_ends)
  have cb: "collectBody ''endsnippet'' lines [] n = (concat lines, n + length lines, False)"
    using collectBody_not_found[OF assms(3), of "[]" n] by simp
  show ?thesis
    unfolding handleSnippetOrGlobal_def
    using ht cand strip cb by (simp add: parseHeader_quoted[OF assms(1,2)])
qed

text \<open>First and last characters of a string that has one.\<close>

lemma atFirst_hd: "s \<noteq> [] \<Longrightarrow> atFirst s = Some (hd s)"
  by (cases s) (simp_all add: atFirst_def)

lemma atLast_last: "s \<noteq> [] \<Longrightarrow> atLast s = Some (last s)"
  by (cases s rule: rev_cases) (simp_all add: atLast_def)

text \<open>A header line that has a tail starts with its head, so it is not blank.\<close>

lemma take_two_eq: "take 2 xs = [a, b] \<Longrightarrow> \<exists>ws. xs = a # b # ws"
  by (cases xs; cases "tl xs") (auto simp: numeral_2_eq_2)

lemma split_js_first_piece:
  "split_js sep s = h # w # ws \<Longrightarrow> \<exists>r. s = h @ sep # r"
proof (induction s arbitrary: h)
  case Nil
  then show ?case by simp
next
  case (Cons c cs)
  show ?case
  proof (cases "c = sep")
    case True
    with Cons.prems show ?thesis by auto
  next
    case False
    with Cons.prems obtain p where p: "split_js sep cs = p # w # ws" and h: "h = c # p"
      by (cases "split_js sep cs") auto
    from Cons.IH[OF p] obtain r where "cs = p @ sep # r" by blast
    with h show ?thesis by simp
  qed
qed

lemma trim_nonempty:
  assumes "s \<noteq> []" and "\<not> isWhiteSpace (hd s)"
  shows "trim s \<noteq> []"
proof -
  from assms have "trimStart s = s" by (cases s) (auto simp: trimStart_def)
  moreover from assms have "\<exists>x \<in> set (rev s). \<not> isWhiteSpace x"
    by (cases s) auto
  then have "dropWhile isWhiteSpace (rev s) \<noteq> []"
    by (simp add: dropWhile_eq_Nil_conv)
  ultimately show ?thesis by (simp add: trim_def trimEnd_def)
qed

lemma header_line_not_blank:
  assumes "headTail line = [head, tail]" and "head \<in> set [''snippet'', ''global'']"
  shows "trim line \<noteq> []"
proof -
  from assms(1) have "\<exists>ws. split_js CHR '' '' line = head # tail # ws"
    unfolding headTail_def by (rule take_two_eq)
  then obtain ws where "split_js CHR '' '' line = head # tail # ws" ..
  then have "\<exists>r. line = head @ CHR '' '' # r"
    by (rule split_js_first_piece)
  then obtain r where line: "line = head @ CHR '' '' # r" ..
  from assms(2) have "head = ''snippet'' \<or> head = ''global''" by simp
  then have "line \<noteq> [] \<and> \<not> isWhiteSpace (hd line)"
  proof
    assume "head = ''snippet''"
    with line show ?thesis by (simp add: isWhiteSpace_def)
  next
    assume "head = ''global''"
    with line show ?thesis by (simp add: isWhiteSpace_def)
  qed
  then show ?thesis using trim_nonempty by blast
qed

section \<open>What the handler and the scan do on malformed blocks\<close>

text \<open>
  A file that starts with the header \<^verbatim>\<open>snippet "t"\<close>, the trigger without a space, a
  double quote or a newline, and has no line that, trimmed at its end, is
  \<^verbatim>\<open>endsnippet\<close>: the run ends with the missing-end-marker error, which names the marker
  and the trigger and carries the number of lines of the file.
\<close>

lemma missing_end_marker_one_word:
  assumes "CHR '' '' \<notin> set t" and "dquote \<notin> set t" and "newline \<notin> set t"
    and "\<forall>line \<in> set (split_js newline body). trimEnd line \<noteq> ''endsnippet''"
  shows "parseSnippets filename (''snippet '' @ [dquote] @ t @ [dquote] @ [newline] @ body)
         = \<lparr>yielded = [],
            completion = Returned (Error (''Missing '' @ quoted ''endsnippet'' @ '' for '' @ quoted t)
              (length (split_js newline
                 (''snippet '' @ [dquote] @ t @ [dquote] @ [newline] @ body))))\<rparr>"
proof -
  let ?hdr = "''snippet '' @ dquote # t @ [dquote]"
  let ?raw = "''snippet '' @ [dquote] @ t @ [dquote] @ [newline] @ body"
  have raw: "?raw = ?hdr @ newline # body" by simp
  have "newline \<notin> set ?hdr"
    using assms(3) by (simp add: newline_def dquote_def)
  then have lines: "split_js newline ?raw = ?hdr # split_js newline body"
    unfolding raw by (rule split_js_append)
  have te: "trimEnd ?hdr = ?hdr"
    by (rule trimEnd_id) (simp_all add: dquote_not_space)
  have "trim ?hdr = ?hdr"
  proof (rule trim_id)
    show "\<not> isWhiteSpace (hd ?hdr)" by (simp add: isWhiteSpace_def)
    show "\<not> isWhiteSpace (last ?hdr)" by (simp add: dquote_not_space)
  qed simp
  then have nb: "trim ?hdr \<noteq> []" by simp
  have hd: "hd (headTail ?hdr) = ''snippet''"
    using headTail_two_words[of "''snippet''" "dquote # t @ [dquote]"] assms(1)
    by (simp add: dquote_def)
  have nomark: "\<forall>line \<in> set (?hdr # split_js newline body). trimEnd line \<noteq> ''endsnippet''"
    using assms(4) te by simp
  show ?thesis
    unfolding parseSnippets_def lines
    using nb hd handler_missing_end[OF assms(1,2) nomark] by simp
qed

text \<open>
  A header line whose trigger candidate, as the handler computes it from the truncated
  tail, is longer than one character and has different first and last characters: the
  handler returns the invalid-multiword-trigger error with the line number it was
  given, and the scan loop ends the run with it.
\<close>

lemma handler_invalid_multiword_trigger:
  assumes "headTail line = [head, tail]"
    and "head \<in> set [''snippet'', ''global'']"
    and "parseHeader tail ctx = (opts, ctx1, desc, cand)"
    and "length cand > 1"
    and "hd cand \<noteq> last cand"
  shows "handleSnippetOrGlobal filename line n lines g p pre ctx
           = Inr (Error (''Invalid multiword trigger: '' @ quoted cand) n, g)
         \<and> scanLines filename lines (line # rest) g n p pre ctx ys
           = \<lparr>yielded = ys,
              completion = Returned (Error (''Invalid multiword trigger: '' @ quoted cand) n)\<rparr>"
proof -
  from assms(4) have ne: "cand \<noteq> []" by auto
  with assms(5) have differ: "atFirst cand \<noteq> atLast cand"
    by (simp add: atFirst_hd atLast_last)
  have handler: "handleSnippetOrGlobal filename line n lines g p pre ctx
           = Inr (Error (''Invalid multiword trigger: '' @ quoted cand) n, g)"
    unfolding handleSnippetOrGlobal_def
    using assms(4) by (simp add: assms(1) assms(3) differ)
  have nb: "trim line \<noteq> []"
    using assms(1,2) by (rule header_line_not_blank)
  have kw: "hd (headTail line) \<in> set [''snippet'', ''global'']"
    using assms(2) by (simp only: assms(1) list.sel)
  show ?thesis
    by (simp only: handler scanLines.simps nb kw if_True if_False sum.case prod.case simp_thms)
qed

text \<open>
  The number the scan loop gives the handler for such a header is the number of
  non-blank lines before it: blank lines are passed over without being counted.
\<close>

lemma invalid_multiword_trigger_counter:
  assumes "split_js newline raw = pre @ line # rest"
    and "\<forall>l \<in> set pre. trim l = [] \<or> hd (headTail l) \<notin> set [''snippet'', ''global'']"
    and "headTail line = [head, tail]"
    and "head \<in> set [''snippet'', ''global'']"
    and "parseHeader tail None = (opts, ctx1, desc, cand)"
    and "length cand > 1"
    and "hd cand \<noteq> last cand"
  shows "parseSnippets filename raw
         = \<lparr>yielded = [],
            completion = Returned (Error (''Invalid multiword trigger: '' @ quoted cand)
              (length (filter (\<lambda>l. trim l \<noteq> []) pre)))\<rparr>"
proof -
  have "scanLines filename (split_js newline raw) (pre @ line # rest) None 0 0 [] None []
        = scanLines filename (split_js newline raw) (line # rest) None
            (0 + length (filter (\<lambda>l. trim l \<noteq> []) pre)) 0 [] None []"
    using assms(2) by (rule scanLines_skip)
  also have "\<dots> = \<lparr>yielded = [],
      completion = Returned (Error (''Invalid multiword trigger: '' @ quoted cand)
        (length (filter (\<lambda>l. trim l \<noteq> []) pre)))\<rparr>"
    using handler_invalid_multiword_trigger [OF assms(3-7), THEN conjunct2,
        of filename "split_js newline raw" rest None
           "length (filter (\<lambda>l. trim l \<noteq> []) pre)" 0 "[]" "[]"]
    by simp
  finally show ?thesis
    unfolding parseSnippets_def by (subst (2) assms(1))
qed

section \<open>The claims\<close>

text \<open>
  C1. The file \<^verbatim>\<open>snippet "trig" "desc"\<close>, \<^verbatim>\<open>BODY\<close>, \<^verbatim>\<open>endsnippet\<close> should parse to exactly
  one record with trigger \<^verbatim>\<open>trig\<close>, description \<^verbatim>\<open>desc\<close> and body \<^verbatim>\<open>BODY\<close>. On that file
  the generator yields nothing, so the loaded array is empty; the record the handler
  builds, which the generator hands back as the value of its \<^verbatim>\<open>return\<close>, has the
  trigger \<^verbatim>\<open>trig\<close>, an empty description, and as its body the header line followed by
  \<^verbatim>\<open>BOD\<close>: the header is cut after its second word, the end marker is searched from the
  first line of the file, lines are appended without their newline, and the chomp
  removes the last character of the body.
\<close>

theorem single_block_eval:
  \<open>parseSnippets ''f.snippets'' ''snippet "trig" "desc"\<newline>BODY\<newline>endsnippet''
     = \<lparr>yielded = [],
        completion = Returned (Snippet \<lparr>priority = 0, trigger = ''trig'',
          value' = ''snippet "trig" "desc"BOD'', description = '''', options = '''',
          globals = None, location = ''f.snippets:0'', context' = None, actions = []\<rparr>)\<rparr>
   \<and> loadedRecords ''f.snippets'' ''snippet "trig" "desc"\<newline>BODY\<newline>endsnippet'' = Inr []\<close>
  by code_simp

text \<open>
  C2. For every file name and every file text the generator yields no record, whether
  its run ends normally, by a \<^verbatim>\<open>return\<close> or by an exception; the array that
  \<^verbatim>\<open>loadSnippets\<close> spreads it into is empty whenever the spread completes.
\<close>

theorem generator_never_yields:
  "yielded (parseSnippets filename raw) = []
   \<and> (loadedRecords filename raw = Inr [] \<or> (\<exists>e. loadedRecords filename raw = Inl e))"
  by (auto simp: parseSnippets_def loadedRecords_def spread_def scanLines_yielded
           split: completion.splits)

text \<open>
  C3. The tail of a header should be everything after the first space. For the header
  \<^verbatim>\<open>snippet "trig" "desc" b\<close> the splitter returns the keyword and the second word
  only; the third and fourth words are dropped.
\<close>

theorem headTail_drops_later_words:
  \<open>headTail ''snippet "trig" "desc" b'' = [''snippet'', ''"trig"'']
   \<and> headTail ''snippet "trig" "desc" b'' \<noteq> [''snippet'', ''"trig" "desc" b'']\<close>
  by code_simp

text \<open>
  C4. Every parse error should reach the caller in the load result. On the file
  \<^verbatim>\<open>snippet abc\<close> the handler returns an invalid-multiword-trigger error and the
  generator hands it back as the value of its \<^verbatim>\<open>return\<close>, which the array spread
  drops: the loaded array is empty, as it is for the empty file.
\<close>

theorem handler_error_dropped:
  \<open>handleSnippetOrGlobal ''f.snippets'' ''snippet abc'' 0 [''snippet abc''] None 0 [] None
     = Inr (Error (''Invalid multiword trigger: '' @ quoted ''abc'') 0, None)
   \<and> completion (parseSnippets ''f.snippets'' ''snippet abc'')
     = Returned (Error (''Invalid multiword trigger: '' @ quoted ''abc'') 0)
   \<and> loadedRecords ''f.snippets'' ''snippet abc'' = Inr []
   \<and> loadedRecords ''f.snippets'' '''' = Inr []\<close>
  by code_simp

text \<open>
  C5. A snippet header with a quoted trigger, followed by body text and no
  \<^verbatim>\<open>endsnippet\<close> line, should fail with the missing-end-marker error that names the
  marker, the trigger and the last line scanned. On the file \<^verbatim>\<open>snippet "a b"\<close>,
  \<^verbatim>\<open>BODY\<close> the header is cut after \<^verbatim>\<open>"a\<close>, the handler returns the
  invalid-multiword-trigger error for that fragment at line 0 and the scan for the end
  marker is never reached.
\<close>

theorem missing_end_marker_two_words_eval:
  \<open>parseSnippets ''f.snippets'' ''snippet "a b"\<newline>BODY''
     = \<lparr>yielded = [],
        completion = Returned (Error (''Invalid multiword trigger: '' @ quoted ''"a'') 0)\<rparr>
   \<and> completion (parseSnippets ''f.snippets'' ''snippet "a b"\<newline>BODY'')
     \<noteq> Returned (Error (''Missing '' @ quoted ''endsnippet'' @ '' for '' @ quoted ''a b'') 2)\<close>
  by code_simp

text \<open>
  C6. A header whose trigger is longer than one character with different first and last
  characters should fail with the invalid-multiword-trigger error at the header's line
  number. On the file with two blank lines before \<^verbatim>\<open>snippet abc\<close> the header is the
  third line and the error carries the number 0, the same number as for the file whose
  first line is that header; for the header \<^verbatim>\<open>snippet abc xyz\<close> the error names
  \<^verbatim>\<open>abc\<close> only.
\<close>

theorem invalid_multiword_trigger_line_eval:
  \<open>split_js newline ''\<newline>\<newline>snippet abc'' = ['''', '''', ''snippet abc'']
   \<and> parseSnippets ''f.snippets'' ''\<newline>\<newline>snippet abc''
     = \<lparr>yielded = [],
        completion = Returned (Error (''Invalid multiword trigger: '' @ quoted ''abc'') 0)\<rparr>
   \<and> parseSnippets ''f.snippets'' ''snippet abc''
     = \<lparr>yielded = [],
        completion = Returned (Error (''Invalid multiword trigger: '' @ quoted ''abc'') 0)\<rparr>
   \<and> parseSnippets ''f.snippets'' ''snippet abc xyz''
     = \<lparr>yielded = [],
        completion = Returned (Error (''Invalid multiword trigger: '' @ quoted ''abc'') 0)\<rparr>\<close>
  by code_simp

text \<open>
  C7. The body of a completed global block should be visible to the snippet blocks
  declared after it. On a file with a global block followed by a snippet block the
  parse raises at the global block, since the globals object is \<^verbatim>\<open>null\<close>; no record is
  built for the snippet block.
\<close>

theorem global_then_snippet_eval:
  \<open>parseSnippets ''f.snippets''
       ''global g\<newline>x\<newline>endglobal\<newline>snippet a\<newline>y\<newline>endsnippet''
     = \<lparr>yielded = [], completion = Threw (ReadOfNull ''g'')\<rparr>
   \<and> loadedRecords ''f.snippets''
       ''global g\<newline>x\<newline>endglobal\<newline>snippet a\<newline>y\<newline>endsnippet''
     = Inl (ReadOfNull ''g'')\<close>
  by code_simp

text \<open>
  C8, as stated: a \<^verbatim>\<open>priority 5\<close> line followed by two snippet blocks gives two records
  of priority 5. On such a file the yielded priorities are not \<open>[5, 5]\<close>, and the one
  record that is built has priority 0.
\<close>

theorem priority_sticky_counterexample:
  \<open>map priority (yielded (parseSnippets ''f.snippets''
       ''priority 5\<newline>snippet a\<newline>x\<newline>endsnippet\<newline>snippet b\<newline>y\<newline>endsnippet''))
     \<noteq> [5, 5]
   \<and> completion (parseSnippets ''f.snippets''
       ''priority 5\<newline>snippet a\<newline>x\<newline>endsnippet\<newline>snippet b\<newline>y\<newline>endsnippet'')
     = Returned (Snippet \<lparr>priority = 0, trigger = ''a'', value' = ''priority 5snippet a'',
          description = '''', options = '''', globals = None, location = ''f.snippets:1'',
          context' = None, actions = []\<rparr>)\<close>
  by code_simp

text \<open>
  C8, amended: the priority in effect never changes during a scan. Whatever the file
  holds, with or without \<^verbatim>\<open>priority\<close> lines, a record built for a snippet block has
  priority 0.
\<close>

theorem priority_is_constant:
  assumes "completion (parseSnippets filename raw) = Returned (Snippet r)"
  shows "priority r = 0"
  using assms unfolding parseSnippets_def by (rule scanLines_priority)

theorem priority_is_constant_witness:
  \<open>completion (parseSnippets ''f.snippets'' ''priority 5\<newline>snippet a\<newline>x\<newline>endsnippet'')
     = Returned (Snippet \<lparr>priority = 0, trigger = ''a'', value' = ''priority 5snippet a'',
          description = '''', options = '''', globals = None, location = ''f.snippets:1'',
          context' = None, actions = []\<rparr>)
   \<and> priority \<lparr>priority = 0, trigger = ''a'', value' = ''priority 5snippet a'',
          description = '''', options = '''', globals = None, location = ''f.snippets:1'',
          context' = None, actions = []\<rparr> = 0\<close>
proof -
  have h: \<open>completion (parseSnippets ''f.snippets'' ''priority 5\<newline>snippet a\<newline>x\<newline>endsnippet'')
     = Returned (Snippet \<lparr>priority = 0, trigger = ''a'', value' = ''priority 5snippet a'',
          description = '''', options = '''', globals = None, location = ''f.snippets:1'',
          context' = None, actions = []\<rparr>)\<close>
    by code_simp
  show ?thesis using h priority_is_constant [OF h] by simp
qed

text \<open>
  C9. A file whose lines before the first block header are blank or start with a word
  other than \<^verbatim>\<open>snippet\<close> and \<^verbatim>\<open>global\<close>, whose first block header is
  \<^verbatim>\<open>global\<close> followed by a space and a key of one character that is no white space, and
  which has a line after it that, trimmed at its end, is \<^verbatim>\<open>endglobal\<close>: the parse raises a
  TypeError, the read of the key on the globals object, which is \<^verbatim>\<open>null\<close>. Nothing is
  yielded and the array spread in \<^verbatim>\<open>loadSnippets\<close> raises as well.
\<close>

theorem global_block_raises:
  assumes "split_js newline raw = pre @ (''global '' @ [key]) # rest"
    and "\<forall>line \<in> set pre.
           trim line = [] \<or> hd (headTail line) \<notin> set [''snippet'', ''global'']"
    and "\<not> isWhiteSpace key"
    and "\<exists>line \<in> set rest. trimEnd line = ''endglobal''"
  shows "parseSnippets filename raw = \<lparr>yielded = [], completion = Threw (ReadOfNull [key])\<rparr>
         \<and> loadedRecords filename raw = Inl (ReadOfNull [key])"
proof -
  let ?hdr = "''global '' @ [key]"
  from assms(3) have sp: "key \<noteq> CHR '' ''" by (auto simp: isWhiteSpace_def)
  then have ht: "headTail (''global'' @ CHR '' '' # [key]) = [''global'', [key]]"
    by (intro headTail_two_words) auto
  have nb: "trim ?hdr \<noteq> []"
    using assms(3) by (subst trim_id) (auto simp: isWhiteSpace_def)
  from assms(4) have ex: "\<exists>line \<in> set (split_js newline raw). trimEnd line = ''endglobal''"
    by (auto simp: assms(1))
  have "scanLines filename (split_js newline raw) (?hdr # rest) None m 0 [] None []
        = \<lparr>yielded = [], completion = Threw (ReadOfNull [key])\<rparr>" for m
    using ht nb handler_global_null[OF assms(3) ex] by simp
  then have "parseSnippets filename raw = \<lparr>yielded = [], completion = Threw (ReadOfNull [key])\<rparr>"
    unfolding parseSnippets_def
    by (subst (2) assms(1)) (simp add: scanLines_skip[OF assms(2)])
  then show ?thesis by (simp add: loadedRecords_def spread_def)
qed

theorem global_block_raises_witness:
  \<open>split_js newline ''priority 5\<newline>\<newline>global g\<newline>x = 1\<newline>endglobal  ''
     = [''priority 5'', ''''] @ (''global '' @ [CHR ''g'']) # [''x = 1'', ''endglobal  '']
   \<and> list_all (\<lambda>line. trim line = [] \<or> hd (headTail line) \<notin> set [''snippet'', ''global''])
        [''priority 5'', '''']
   \<and> \<not> isWhiteSpace CHR ''g''
   \<and> list_ex (\<lambda>line. trimEnd line = ''endglobal'') [''x = 1'', ''endglobal  '']
   \<and> parseSnippets ''f.snippets'' ''priority 5\<newline>\<newline>global g\<newline>x = 1\<newline>endglobal  ''
     = \<lparr>yielded = [], completion = Threw (ReadOfNull [CHR ''g''])\<rparr>
   \<and> loadedRecords ''f.snippets'' ''priority 5\<newline>\<newline>global g\<newline>x = 1\<newline>endglobal  ''
     = Inl (ReadOfNull [CHR ''g''])\<close>
proof -
  have h1: \<open>split_js newline ''priority 5\<newline>\<newline>global g\<newline>x = 1\<newline>endglobal  ''
     = [''priority 5'', ''''] @ (''global '' @ [CHR ''g'']) # [''x = 1'', ''endglobal  '']\<close>
    by code_simp
  have h2: \<open>\<forall>line \<in> set [''priority 5'', ''''].
              trim line = [] \<or> hd (headTail line) \<notin> set [''snippet'', ''global'']\<close>
    by code_simp
  have h3: \<open>\<not> isWhiteSpace CHR ''g''\<close> by code_simp
  have h4: \<open>\<exists>line \<in> set [''x = 1'', ''endglobal  '']. trimEnd line = ''endglobal''\<close>
    by code_simp
  have l2: \<open>list_all (\<lambda>line. trim line = [] \<or> hd (headTail line) \<notin> set [''snippet'', ''global''])
        [''priority 5'', '''']\<close>
    using h2 unfolding list_all_iff .
  have l4: \<open>list_ex (\<lambda>line. trimEnd line = ''endglobal'') [''x = 1'', ''endglobal  '']\<close>
    using h4 unfolding list_ex_iff .
  note r = global_block_raises [OF h1 h2 h3 h4, of "''f.snippets''"]
  show ?thesis
    using h1 l2 h3 l4 r by blast
qed

text \<open>
  C10. A file in which every line is blank or starts with a word other than
  \<^verbatim>\<open>snippet\<close> and \<^verbatim>\<open>global\<close> yields no record and raises nothing: the run ends
  normally and the loaded array is empty.
\<close>

theorem no_directive_lines:
  assumes "\<forall>line \<in> set (split_js newline raw).
             trim line = [] \<or> hd (headTail line) \<notin> set [''snippet'', ''global'']"
  shows "parseSnippets filename raw = \<lparr>yielded = [], completion = Done\<rparr>
         \<and> loadedRecords filename raw = Inr []"
proof -
  have "scanLines filename (split_js newline raw) (split_js newline raw @ []) None 0 0 [] None []
        = \<lparr>yielded = [], completion = Done\<rparr>"
    using assms by (subst scanLines_skip) auto
  then show ?thesis
    by (simp add: parseSnippets_def loadedRecords_def spread_def)
qed

theorem no_directive_lines_witness:
  \<open>list_all (\<lambda>line. trim line = [] \<or> hd (headTail line) \<notin> set [''snippet'', ''global''])
       (split_js newline ''priority 5\<newline>\<newline>extends tex'')
   \<and> parseSnippets ''tex.snippets'' ''priority 5\<newline>\<newline>extends tex''
       = \<lparr>yielded = [], completion = Done\<rparr>
   \<and> loadedRecords ''tex.snippets'' ''priority 5\<newline>\<newline>extends tex'' = Inr []\<close>
proof -
  have h: \<open>\<forall>line \<in> set (split_js newline ''priority 5\<newline>\<newline>extends tex'').
             trim line = [] \<or> hd (headTail line) \<notin> set [''snippet'', ''global'']\<close>
    by code_simp
  have l: \<open>list_all (\<lambda>line. trim line = [] \<or> hd (headTail line) \<notin> set [''snippet'', ''global''])
       (split_js newline ''priority 5\<newline>\<newline>extends tex'')\<close>
    using h unfolding list_all_iff .
  show ?thesis
    using l no_directive_lines [OF h, of "''tex.snippets''"] by (rule conjI)
qed

end
